theory Spec2Isabelle
  imports Main
begin

section \<open>JavaScript values and strings\<close>

text \<open>
  The plugin (\<^verbatim>\<open>src/main.ts\<close>) builds one JSON entry from its settings and merges it into
  the configuration file of the desktop application.  The values it handles are JSON
  values.  Numbers are never inspected by the plugin, so the type of numbers inside a
  document is left open (\<open>'n\<close>).  An object is the list of its properties in property
  order; a string is a list of code units below 256.
\<close>

datatype 'n json =
    JNull
  | JBool bool
  | JNum 'n
  | JStr string
  | JArr "'n json list"
  | JObj "(string \<times> 'n json) list"

text \<open>\<^verbatim>\<open>typeof v === 'object' && v !== null\<close>: true of objects and of arrays.\<close>

fun is_object_value :: "'n json \<Rightarrow> bool" where
  "is_object_value (JObj kvs) = True"
| "is_object_value (JArr xs) = True"
| "is_object_value v = False"

text \<open>Reading a property: \<open>None\<close> is \<^verbatim>\<open>undefined\<close>.\<close>

fun get_property :: "(string \<times> 'a) list \<Rightarrow> string \<Rightarrow> 'a option" where
  "get_property [] k = None"
| "get_property ((k', v) # kvs) k = (if k' = k then Some v else get_property kvs k)"

text \<open>
  Assigning to a property: an existing property keeps its place, a new one is added
  last.
\<close>

fun set_property :: "(string \<times> 'a) list \<Rightarrow> string \<Rightarrow> 'a \<Rightarrow> (string \<times> 'a) list" where
  "set_property [] k v = [(k, v)]"
| "set_property ((k', v') # kvs) k v =
     (if k' = k then (k, v) # kvs else (k', v') # set_property kvs k v)"

fun remove_property :: "(string \<times> 'a) list \<Rightarrow> string \<Rightarrow> (string \<times> 'a) list" where
  "remove_property [] k = []"
| "remove_property ((k', v') # kvs) k =
     (if k' = k then remove_property kvs k else (k', v') # remove_property kvs k)"

text \<open>
  \<^verbatim>\<open>obj[k] = v\<close> where \<open>v\<close> may be \<^verbatim>\<open>undefined\<close>.  A property whose value is
  \<^verbatim>\<open>undefined\<close> is left out by \<^verbatim>\<open>JSON.stringify\<close>; since every object of this program
  ends in \<^verbatim>\<open>JSON.stringify\<close>, such a property is modelled as absent.
\<close>

definition assign_property ::
  "(string \<times> 'a) list \<Rightarrow> string \<Rightarrow> 'a option \<Rightarrow> (string \<times> 'a) list" where
  "assign_property kvs k v =
     (case v of Some x \<Rightarrow> set_property kvs k x | None \<Rightarrow> remove_property kvs k)"

definition Object_keys :: "(string \<times> 'a) list \<Rightarrow> string list" where
  "Object_keys kvs = map fst kvs"

text \<open>Nested property access along a path of keys.\<close>

fun get_path :: "'n json \<Rightarrow> string list \<Rightarrow> 'n json option" where
  "get_path v [] = Some v"
| "get_path (JObj kvs) (k # ks) =
     (case get_property kvs k of None \<Rightarrow> None | Some v \<Rightarrow> get_path v ks)"
| "get_path v (k # ks) = None"

text \<open>
  White space of \<^verbatim>\<open>String.prototype.trim\<close> and \<^verbatim>\<open>parseInt\<close> among the code units below
  256: TAB, LF, VT, FF, CR, SP and NBSP.
\<close>

definition is_white_space :: "char \<Rightarrow> bool" where
  "is_white_space c \<longleftrightarrow>
     c \<in> set [CHR 0x09, CHR 0x0A, CHR 0x0B, CHR 0x0C, CHR 0x0D, CHR 0x20, CHR 0xA0]"

definition trim :: "string \<Rightarrow> string" where
  "trim s = rev (dropWhile is_white_space (rev (dropWhile is_white_space s)))"

definition startsWith :: "string \<Rightarrow> string \<Rightarrow> bool" where
  "startsWith s p \<longleftrightarrow> take (length p) s = p"

definition substring :: "string \<Rightarrow> nat \<Rightarrow> string" where
  "substring s n = drop n s"

text \<open>
  The settings hold the history limit as a number that is always the result of
  \<^verbatim>\<open>parseInt\<close> or the default 100: an integer.  \<^verbatim>\<open>String(n)\<close> of an integer is its
  decimal numeral (for magnitudes below \<open>10^21\<close>).
\<close>

definition digit_char :: "int \<Rightarrow> char" where
  "digit_char d = char_of (48 + d)"

function decimal :: "int \<Rightarrow> string" where
  "decimal n = (if n < 10 then [digit_char n] else decimal (n div 10) @ [digit_char (n mod 10)])"
  by pat_completeness auto
termination
  by (relation "measure nat") auto

declare decimal.simps [simp del]

definition String_number :: "int \<Rightarrow> string" where
  "String_number i = (if i < 0 then CHR ''-'' # decimal (- i) else decimal i)"

text \<open>
  \<^verbatim>\<open>parseInt(value, 10)\<close>: leading white space is skipped, one sign is read, then the
  longest run of decimal digits; what follows is ignored.  \<open>None\<close> is \<^verbatim>\<open>NaN\<close>.
  The result here is the exact integer; JavaScript rounds it to a double above \<open>2^53\<close>,
  which changes neither whether it is \<^verbatim>\<open>NaN\<close> nor its sign.
\<close>

definition is_digit :: "char \<Rightarrow> bool" where
  "is_digit c \<longleftrightarrow> 48 \<le> (of_char c :: nat) \<and> (of_char c :: nat) \<le> 57"

definition digit_value :: "char \<Rightarrow> int" where
  "digit_value c = int (of_char c :: nat) - 48"

definition digits_value :: "string \<Rightarrow> int" where
  "digits_value ds = foldl (\<lambda>acc c. 10 * acc + digit_value c) 0 ds"

definition parseInt :: "string \<Rightarrow> int option" where
  "parseInt s =
     (let t = dropWhile is_white_space s;
          negative = (t \<noteq> [] \<and> hd t = CHR ''-'');
          u = (if t \<noteq> [] \<and> (hd t = CHR ''+'' \<or> hd t = CHR ''-'') then tl t else t);
          ds = takeWhile is_digit u
      in if ds = [] then None
         else Some (if negative then - digits_value ds else digits_value ds))"

section \<open>The runtime the plugin runs on\<close>

text \<open>
  The plugin calls Node's \<^verbatim>\<open>os\<close>, \<^verbatim>\<open>path\<close> and \<^verbatim>\<open>fs\<close> modules and the built-in
  \<^verbatim>\<open>JSON\<close> object.  They are not code of the plugin: the model takes them as a record of
  functions over a file system of any type \<open>'fs\<close>, so that what is proved of the plugin
  holds for every behaviour of these calls.  A call that changes the file system either
  returns or throws, and leaves a file system behind in both cases.
\<close>

datatype 'fs attempt = Returned 'fs | Threw 'fs

record ('fs, 'n) node =
  node_available :: bool
    \<comment> \<open>whether \<^verbatim>\<open>require('os')\<close>, \<^verbatim>\<open>require('path')\<close> and \<^verbatim>\<open>require('fs')\<close> return\<close>
  os_homedir :: "string option"
    \<comment> \<open>\<^verbatim>\<open>os.homedir()\<close>; \<open>None\<close> when it throws\<close>
  path_join :: "string list \<Rightarrow> string"
  path_dirname :: "string \<Rightarrow> string"
  fs_existsSync :: "'fs \<Rightarrow> string \<Rightarrow> bool"
  fs_mkdirSync :: "'fs \<Rightarrow> string \<Rightarrow> 'fs attempt"
    \<comment> \<open>\<^verbatim>\<open>fs.mkdirSync(p, { recursive: true })\<close>\<close>
  fs_readFileSync :: "'fs \<Rightarrow> string \<Rightarrow> string option"
    \<comment> \<open>\<^verbatim>\<open>fs.readFileSync(p, 'utf-8')\<close>; \<open>None\<close> when it throws\<close>
  fs_writeFileSync :: "'fs \<Rightarrow> string \<Rightarrow> string \<Rightarrow> 'fs attempt"
  JSON_parse :: "string \<Rightarrow> 'n json option"
    \<comment> \<open>\<open>None\<close> when it throws a \<^verbatim>\<open>SyntaxError\<close>\<close>
  JSON_stringify :: "'n json \<Rightarrow> string"
    \<comment> \<open>\<^verbatim>\<open>JSON.stringify(v, null, 2)\<close>\<close>

section \<open>Settings, credentials and the settings tab\<close>

record MyPluginSettings =
  claudeConfigPath :: string
  uvPath :: "string option"
  historyFolder :: "string option"
  maxHistoryFiles :: int

text \<open>The settings of the companion plugin, and the plugin object that may lack them.\<close>

record LocalRestApiSettings =
  port :: int
  rest_apiKey :: string

datatype LocalRestApiPlugin = LocalRestApiPlugin "LocalRestApiSettings option"

record credentials =
  url :: "string option"
  apiKey :: "string option"

text \<open>What the plugin reads from the host application.\<close>

record app =
  basePath :: string
    \<comment> \<open>\<^verbatim>\<open>this.app.vault.adapter.basePath\<close>\<close>
  manifest_dir :: string
    \<comment> \<open>\<^verbatim>\<open>this.plugin.manifest.dir\<close>\<close>
  local_rest_api :: "LocalRestApiPlugin option"
    \<comment> \<open>\<^verbatim>\<open>this.app.plugins.getPlugin('obsidian-local-rest-api')\<close>\<close>

text \<open>The notices the plugin shows, one constructor for each message of the source.\<close>

datatype notice =
    PathNotSet
      \<comment> \<open>Error: "Claude Desktop Config Path" is not set. Please specify the path first.\<close>
  | NoConfigurationData
      \<comment> \<open>Error: There is no configuration data.\<close>
  | CouldNotExpandHome
      \<comment> \<open>Could not expand "~" to home directory automatically.\<close>
  | TildeExpansionError
      \<comment> \<open>Error during tilde expansion. Please use an absolute path.\<close>
  | CreatingDirectory string
  | ExistingFileNotUpdatable string
      \<comment> \<open>Warning: Existing file at "..." was not valid JSON. It cannnot be updated\<close>
  | ErrorReadingExisting
      \<comment> \<open>Error reading existing config file. A new file structure will be created.\<close>
  | ConfigurationUpdated string
      \<comment> \<open>"yor-dev/mcp-obsidian" configuration successfully updated in: ...\<close>
  | FailedToSave string
      \<comment> \<open>Failed to save configuration to "...".\<close>
  | InvalidInteger
      \<comment> \<open>Please enter a valid integer greater than or equal to 0.\<close>

text \<open>
  The state of the settings tab: the settings object it shares with the plugin, what
  \<^verbatim>\<open>saveData\<close> stored last, the field \<^verbatim>\<open>McpJsonConfig\<close> (\<open>None\<close> while it is
  \<^verbatim>\<open>undefined\<close>), the text of the read-only text area, the text of the
  "Max History Files" input, and the notices shown so far.
\<close>

record 'n SampleSettingTab =
  settings :: MyPluginSettings
  saved :: "MyPluginSettings option"
  McpJsonConfig :: "(string \<times> 'n json) list option"
  configTextArea :: string
  maxHistoryText :: string
  shown :: "notice list"

definition ENTRY_KEY :: string where
  "ENTRY_KEY = ''yor-dev/mcp-obsidian''"

definition nullable :: "string option \<Rightarrow> 'n json" where
  "nullable v = (case v of None \<Rightarrow> JNull | Some s \<Rightarrow> JStr s)"

text \<open>\<^verbatim>\<open>getLocalRestApiCredentials\<close> (lines 158-166).\<close>

definition getLocalRestApiCredentials :: "app \<Rightarrow> credentials" where
  "getLocalRestApiCredentials a =
     (case local_rest_api a of
        Some (LocalRestApiPlugin (Some s)) \<Rightarrow>
          \<lparr>url = Some (''https://127.0.0.1:'' @ String_number (port s)),
           apiKey = Some (rest_apiKey s)\<rparr>
      | _ \<Rightarrow> \<lparr>url = None, apiKey = None\<rparr>)"

text \<open>
  \<^verbatim>\<open>_updateMcpJsonConfigDisplay\<close> (lines 173-196): the entry is built anew from the
  settings, the credentials and the two paths of the host, stored in \<^verbatim>\<open>McpJsonConfig\<close>
  and shown in the text area.  A \<^verbatim>\<open>uvPath\<close> that is \<^verbatim>\<open>null\<close> or empty is falsy.
\<close>

definition mcp_entry :: "('fs, 'n) node \<Rightarrow> app \<Rightarrow> MyPluginSettings \<Rightarrow> credentials \<Rightarrow> 'n json" where
  "mcp_entry rt a s c =
     JObj [(''command'', JStr (case uvPath s of
                                  None \<Rightarrow> ''uv''
                                | Some p \<Rightarrow> if p = [] then ''uv'' else p)),
           (''args'', JArr [JStr ''tool'', JStr ''run'',
                            JStr (path_join rt [basePath a, manifest_dir a,
                                                ''/python-packages/obsidian-mcp-server''])]),
           (''env'', JObj [(''OBSIDIAN_API_KEY'', nullable (apiKey c)),
                           (''OBSIDIAN_HOST'', nullable (url c)),
                           (''OBSIDIAN_HISTORY_FOLDER'', nullable (historyFolder s)),
                           (''OBSIDIAN_MAX_HISTORY_FILES'',
                              JStr (String_number (maxHistoryFiles s)))])]"

definition updateMcpJsonConfigDisplay ::
  "('fs, 'n) node \<Rightarrow> app \<Rightarrow> credentials \<Rightarrow> 'n SampleSettingTab \<Rightarrow> 'n SampleSettingTab" where
  "updateMcpJsonConfigDisplay rt a c t =
     (let config = [(ENTRY_KEY, mcp_entry rt a (settings t) c)]
      in t\<lparr>McpJsonConfig := Some config,
            configTextArea := JSON_stringify rt (JObj config)\<rparr>)"

definition saveSettings :: "'n SampleSettingTab \<Rightarrow> 'n SampleSettingTab" where
  "saveSettings t = t\<lparr>saved := Some (settings t)\<rparr>"

text \<open>
  The change handler of the "Max History Files" input (lines 267-281).  The text of the
  input is what the user has typed, whichever branch is taken; the rejecting branch
  sets it back to the stored value.
\<close>

definition onChange_maxHistoryFiles ::
  "('fs, 'n) node \<Rightarrow> app \<Rightarrow> string \<Rightarrow> 'n SampleSettingTab \<Rightarrow> 'n SampleSettingTab" where
  "onChange_maxHistoryFiles rt a v t0 =
     (let t = t0\<lparr>maxHistoryText := v\<rparr>
      in case parseInt v of
           Some numValue \<Rightarrow>
             if numValue \<ge> 0
             then updateMcpJsonConfigDisplay rt a (getLocalRestApiCredentials a)
                    (saveSettings (t\<lparr>settings := (settings t)\<lparr>maxHistoryFiles := numValue\<rparr>\<rparr>))
             else t\<lparr>shown := shown t @ [InvalidInteger],
                    maxHistoryText := String_number (maxHistoryFiles (settings t))\<rparr>
         | None \<Rightarrow>
             t\<lparr>shown := shown t @ [InvalidInteger],
               maxHistoryText := String_number (maxHistoryFiles (settings t))\<rparr>)"

section \<open>Updating the configuration file\<close>

text \<open>
  The outcome of one click on "Update JSON": the file system it leaves, the calls it
  made to \<^verbatim>\<open>fs\<close> in order, the notices it showed in order, and the value of
  \<^verbatim>\<open>fileConfig\<close> it handed to \<^verbatim>\<open>JSON.stringify\<close> for writing, if it came that far.
\<close>

datatype fs_call =
    ExistsSync string
  | MkdirSync string
  | ReadFileSync string
  | WriteFileSync string string

record ('fs, 'n) outcome =
  disk :: 'fs
  calls :: "fs_call list"
  notices :: "notice list"
  document :: "'n json option"

text \<open>
  Tilde expansion (lines 444-463).  Whatever goes wrong is told to the user and the
  handler goes on with the path as it is.
\<close>

definition has_home_marker :: "string \<Rightarrow> bool" where
  "has_home_marker p \<longleftrightarrow> startsWith p ''~/'' \<or> startsWith p [CHR ''~'', CHR 0x5C]"

definition expand_tilde :: "('fs, 'n) node \<Rightarrow> string \<Rightarrow> string \<times> notice list" where
  "expand_tilde rt filePath =
     (if filePath \<noteq> [] \<and> has_home_marker filePath then
        if \<not> node_available rt then (filePath, [TildeExpansionError])
        else case os_homedir rt of
               None \<Rightarrow> (filePath, [TildeExpansionError])
             | Some homedir \<Rightarrow>
                 if homedir \<noteq> []
                 then (path_join rt
                         [homedir, substring filePath (if startsWith filePath ''~/'' then 2 else 1)],
                       [])
                 else (filePath, [CouldNotExpandHome])
      else (filePath, []))"

text \<open>
  Lines 500-505.  \<^verbatim>\<open>fileConfig\<close> is an object or an array here.  A property with a name
  that is set on an array is not part of what \<^verbatim>\<open>JSON.stringify\<close> writes, so an array
  stays as it is, at the top and under \<^verbatim>\<open>mcpServers\<close>.
\<close>

definition ensure_mcpServers :: "'n json \<Rightarrow> 'n json" where
  "ensure_mcpServers fileConfig =
     (case fileConfig of
        JObj kvs \<Rightarrow>
          (case get_property kvs ''mcpServers'' of
             None \<Rightarrow> JObj (set_property kvs ''mcpServers'' (JObj []))
           | Some v \<Rightarrow>
               if is_object_value v then JObj kvs
               else JObj (set_property kvs ''mcpServers'' (JObj [])))
      | other \<Rightarrow> other)"

definition set_entry :: "'n json \<Rightarrow> 'n json option \<Rightarrow> 'n json" where
  "set_entry fileConfig entry =
     (case fileConfig of
        JObj kvs \<Rightarrow>
          (case get_property kvs ''mcpServers'' of
             Some (JObj servers) \<Rightarrow>
               JObj (set_property kvs ''mcpServers''
                       (JObj (assign_property servers ENTRY_KEY entry)))
           | _ \<Rightarrow> JObj kvs)
      | other \<Rightarrow> other)"

definition merge_entry :: "'n json \<Rightarrow> 'n json option \<Rightarrow> 'n json" where
  "merge_entry fileConfig entry = set_entry (ensure_mcpServers fileConfig) entry"

text \<open>
  Lines 472-479: the directory of the file is created, with its ancestors, when
  \<^verbatim>\<open>existsSync\<close> does not find it.  The result holds the calls made and the notices
  shown.
\<close>

definition ensure_directory ::
  "('fs, 'n) node \<Rightarrow> string \<Rightarrow> 'fs \<Rightarrow> 'fs attempt \<times> fs_call list \<times> notice list" where
  "ensure_directory rt dirPath fs =
     (if \<not> fs_existsSync rt fs dirPath
      then (fs_mkdirSync rt fs dirPath, [ExistsSync dirPath, MkdirSync dirPath],
            [CreatingDirectory dirPath])
      else (Returned fs, [ExistsSync dirPath], []))"

text \<open>
  Lines 482-498: the value of \<^verbatim>\<open>fileConfig\<close> after the existing file has been looked
  at; \<open>None\<close> when the handler returns at line 492.  A file that cannot be read or
  parsed gives the empty object and a notice.
\<close>

definition load_existing ::
  "('fs, 'n) node \<Rightarrow> string \<Rightarrow> 'fs \<Rightarrow> 'n json option \<times> fs_call list \<times> notice list" where
  "load_existing rt filePath fs =
     (if fs_existsSync rt fs filePath then
        case fs_readFileSync rt fs filePath of
          None \<Rightarrow>
            (Some (JObj []), [ExistsSync filePath, ReadFileSync filePath], [ErrorReadingExisting])
        | Some fileContent \<Rightarrow>
            (case JSON_parse rt fileContent of
               None \<Rightarrow>
                 (Some (JObj []), [ExistsSync filePath, ReadFileSync filePath],
                  [ErrorReadingExisting])
             | Some fileConfig \<Rightarrow>
                 if \<not> is_object_value fileConfig
                 then (None, [ExistsSync filePath, ReadFileSync filePath],
                       [ExistingFileNotUpdatable filePath])
                 else (Some fileConfig, [ExistsSync filePath, ReadFileSync filePath], []))
      else (Some (JObj []), [ExistsSync filePath], []))"

text \<open>Lines 500-509: merge and write.\<close>

definition write_merged ::
  "('fs, 'n) node \<Rightarrow> string \<Rightarrow> 'n json option \<Rightarrow> 'n json \<Rightarrow> 'fs
     \<Rightarrow> 'fs attempt \<times> fs_call list \<times> 'n json" where
  "write_merged rt filePath entry fileConfig fs =
     (let merged = merge_entry fileConfig entry;
          content = JSON_stringify rt merged
      in (fs_writeFileSync rt fs filePath content, [WriteFileSync filePath content], merged))"

text \<open>
  Lines 466-514 as a whole.  Whatever throws inside is caught at line 511 and told to
  the user.
\<close>

definition update_file ::
  "('fs, 'n) node \<Rightarrow> string \<Rightarrow> 'n json option \<Rightarrow> 'fs \<Rightarrow> ('fs, 'n) outcome" where
  "update_file rt filePath entry fs =
     (if \<not> node_available rt
      then \<lparr>disk = fs, calls = [], notices = [FailedToSave filePath], document = None\<rparr>
      else
        case ensure_directory rt (path_dirname rt filePath) fs of
          (Threw fs1, cs1, ns1) \<Rightarrow>
            \<lparr>disk = fs1, calls = cs1, notices = ns1 @ [FailedToSave filePath],
             document = None\<rparr>
        | (Returned fs1, cs1, ns1) \<Rightarrow>
            (case load_existing rt filePath fs1 of
               (None, cs2, ns2) \<Rightarrow>
                 \<lparr>disk = fs1, calls = cs1 @ cs2, notices = ns1 @ ns2, document = None\<rparr>
             | (Some fileConfig, cs2, ns2) \<Rightarrow>
                 (case write_merged rt filePath entry fileConfig fs1 of
                    (Returned fs2, cs3, merged) \<Rightarrow>
                      \<lparr>disk = fs2, calls = cs1 @ cs2 @ cs3,
                       notices = ns1 @ ns2 @ [ConfigurationUpdated filePath],
                       document = Some merged\<rparr>
                  | (Threw fs2, cs3, merged) \<Rightarrow>
                      \<lparr>disk = fs2, calls = cs1 @ cs2 @ cs3,
                       notices = ns1 @ ns2 @ [FailedToSave filePath],
                       document = Some merged\<rparr>)))"

text \<open>
  The click handler of "Update JSON" (lines 431-515).  \<^verbatim>\<open>McpJsonConfig\<close> is
  \<^verbatim>\<open>undefined\<close> or an object, and an object is truthy.
\<close>

definition onClick_updateJson ::
  "('fs, 'n) node \<Rightarrow> 'n SampleSettingTab \<Rightarrow> 'fs \<Rightarrow> ('fs, 'n) outcome" where
  "onClick_updateJson rt t fs =
     (let filePath = claudeConfigPath (settings t) in
      if filePath = [] \<or> trim filePath = []
      then \<lparr>disk = fs, calls = [], notices = [PathNotSet], document = None\<rparr>
      else
        case McpJsonConfig t of
          None \<Rightarrow> \<lparr>disk = fs, calls = [], notices = [NoConfigurationData], document = None\<rparr>
        | Some config \<Rightarrow>
            if length (Object_keys config) = 0
            then \<lparr>disk = fs, calls = [], notices = [NoConfigurationData], document = None\<rparr>
            else
              case expand_tilde rt filePath of
                (filePath', ns) \<Rightarrow>
                  (let r = update_file rt filePath' (get_property config ENTRY_KEY) fs
                   in r\<lparr>notices := ns @ notices r\<rparr>))"

section \<open>A reference runtime\<close>

text \<open>
  One runtime on which the handlers can be run on concrete inputs: the POSIX flavour of
  Node's \<^verbatim>\<open>path.join\<close> and \<^verbatim>\<open>path.dirname\<close>, a file system in memory whose paths
  are compared as they are written, and \<^verbatim>\<open>JSON.stringify(v, null, 2)\<close> and
  \<^verbatim>\<open>JSON.parse\<close> for documents whose numbers are integers written without fraction and
  exponent.  The general results below do not depend on it.
\<close>

fun split_on :: "char \<Rightarrow> string \<Rightarrow> string list" where
  "split_on c [] = [[]]"
| "split_on c (x # xs) =
     (if x = c then [] # split_on c xs
      else (case split_on c xs of [] \<Rightarrow> [[x]] | y # ys \<Rightarrow> (x # y) # ys))"

fun join_with :: "string \<Rightarrow> string list \<Rightarrow> string" where
  "join_with sep [] = []"
| "join_with sep [x] = x"
| "join_with sep (x # y # ys) = x @ sep @ join_with sep (y # ys)"

fun normalize_segments :: "bool \<Rightarrow> string list \<Rightarrow> string list \<Rightarrow> string list" where
  "normalize_segments allowAboveRoot [] res = rev res"
| "normalize_segments allowAboveRoot (seg # segs) res =
     (if seg = [] \<or> seg = ''.'' then normalize_segments allowAboveRoot segs res
      else if seg = ''..'' then
        (if res \<noteq> [] \<and> hd res \<noteq> ''..'' then normalize_segments allowAboveRoot segs (tl res)
         else if allowAboveRoot then normalize_segments allowAboveRoot segs (''..'' # res)
         else normalize_segments allowAboveRoot segs res)
      else normalize_segments allowAboveRoot segs (seg # res))"

definition posix_normalize :: "string \<Rightarrow> string" where
  "posix_normalize p =
     (if p = [] then ''.''
      else
        let isAbsolute = (hd p = CHR ''/'');
            trailingSeparator = (last p = CHR ''/'');
            q = join_with ''/'' (normalize_segments (\<not> isAbsolute) (split_on CHR ''/'' p) [])
        in if q = [] then (if isAbsolute then ''/'' else if trailingSeparator then ''./'' else ''.'')
           else (if isAbsolute then ''/'' else []) @ q @ (if trailingSeparator then ''/'' else []))"

definition posix_join :: "string list \<Rightarrow> string" where
  "posix_join parts =
     (let joined = join_with ''/'' (filter (\<lambda>a. a \<noteq> []) parts)
      in if joined = [] then ''.'' else posix_normalize joined)"

text \<open>
  \<^verbatim>\<open>path.dirname\<close>: trailing separators are skipped, then the last component, and the
  path is cut at the separator before it.
\<close>

definition posix_dirname :: "string \<Rightarrow> string" where
  "posix_dirname p =
     (if p = [] then ''.''
      else
        let hasRoot = (hd p = CHR ''/'');
            r = dropWhile (\<lambda>c. c \<noteq> CHR ''/'') (dropWhile (\<lambda>c. c = CHR ''/'') (rev (tl p)))
        in if r = [] then (if hasRoot then ''/'' else ''.'')
           else if hasRoot \<and> length r = 1 then ''//''
           else take (length r) p)"

text \<open>
  The file system in memory: the files with their contents and the directories.  The
  root and the current directory are always there.
\<close>

record memfs =
  files :: "(string \<times> string) list"
  dirs :: "string list"

definition mem_existsSync :: "memfs \<Rightarrow> string \<Rightarrow> bool" where
  "mem_existsSync fs p \<longleftrightarrow>
     p = ''/'' \<or> p = ''.'' \<or> List.member (dirs fs) p \<or> get_property (files fs) p \<noteq> None"

text \<open>
  \<^verbatim>\<open>mkdirSync\<close> with \<^verbatim>\<open>recursive: true\<close> creates the directory and every missing
  ancestor, and throws when one of them is a file.
\<close>

fun ancestors :: "nat \<Rightarrow> string \<Rightarrow> string list" where
  "ancestors 0 p = []"
| "ancestors (Suc n) p =
     (if p = ''/'' \<or> p = ''.'' \<or> p = ''//'' then []
      else ancestors n (posix_dirname p) @ [p])"

definition mem_mkdirSync :: "memfs \<Rightarrow> string \<Rightarrow> memfs attempt" where
  "mem_mkdirSync fs p =
     (let chain = ancestors (length p) p
      in if list_ex (\<lambda>d. get_property (files fs) d \<noteq> None) chain then Threw fs
         else Returned (fs\<lparr>dirs := dirs fs @ filter (\<lambda>d. \<not> List.member (dirs fs) d) chain\<rparr>))"

definition mem_readFileSync :: "memfs \<Rightarrow> string \<Rightarrow> string option" where
  "mem_readFileSync fs p = get_property (files fs) p"

definition mem_writeFileSync :: "memfs \<Rightarrow> string \<Rightarrow> string \<Rightarrow> memfs attempt" where
  "mem_writeFileSync fs p content =
     (if List.member (dirs fs) p \<or> \<not> mem_existsSync fs (posix_dirname p)
         \<or> get_property (files fs) (posix_dirname p) \<noteq> None
      then Threw fs
      else Returned (fs\<lparr>files := set_property (files fs) p content\<rparr>))"

text \<open>\<^verbatim>\<open>JSON.stringify(v, null, 2)\<close>: two spaces for each level, one member on each line.\<close>

definition hex_digit :: "nat \<Rightarrow> char" where
  "hex_digit n = ''0123456789abcdef'' ! n"

definition quote_char :: "char \<Rightarrow> string" where
  "quote_char c =
     (if c = CHR 0x22 then [CHR 0x5C, CHR 0x22]
      else if c = CHR 0x5C then [CHR 0x5C, CHR 0x5C]
      else if c = CHR 0x08 then [CHR 0x5C, CHR ''b'']
      else if c = CHR 0x0C then [CHR 0x5C, CHR ''f'']
      else if c = CHR 0x0A then [CHR 0x5C, CHR ''n'']
      else if c = CHR 0x0D then [CHR 0x5C, CHR ''r'']
      else if c = CHR 0x09 then [CHR 0x5C, CHR ''t'']
      else if (of_char c :: nat) < 32
      then [CHR 0x5C, CHR ''u'', CHR ''0'', CHR ''0'',
            hex_digit ((of_char c :: nat) div 16), hex_digit ((of_char c :: nat) mod 16)]
      else [c])"

definition quote :: "string \<Rightarrow> string" where
  "quote s = CHR 0x22 # concat (map quote_char s) @ [CHR 0x22]"

definition indentation :: "nat \<Rightarrow> string" where
  "indentation level = replicate (2 * level) CHR '' ''"

fun stringify_at :: "nat \<Rightarrow> int json \<Rightarrow> string" where
  "stringify_at level JNull = ''null''"
| "stringify_at level (JBool b) = (if b then ''true'' else ''false'')"
| "stringify_at level (JNum n) = String_number n"
| "stringify_at level (JStr s) = quote s"
| "stringify_at level (JArr xs) =
     (if xs = [] then ''[]''
      else ''['' @ [CHR 0x0A]
           @ join_with ('','' @ [CHR 0x0A])
               (map (\<lambda>x. indentation (Suc level) @ stringify_at (Suc level) x) xs)
           @ [CHR 0x0A] @ indentation level @ '']'')"
| "stringify_at level (JObj kvs) =
     (if kvs = [] then ''{}''
      else ''{'' @ [CHR 0x0A]
           @ join_with ('','' @ [CHR 0x0A])
               (map (\<lambda>p. indentation (Suc level) @ quote (fst p) @ '': ''
                            @ stringify_at (Suc level) (snd p)) kvs)
           @ [CHR 0x0A] @ indentation level @ ''}'')"

text \<open>
  \<^verbatim>\<open>JSON.parse\<close> by recursive descent.  The first argument bounds the depth of the
  recursion; twice the length of the text is enough for every text.  A key that occurs
  twice keeps its first place and its last value.
\<close>

definition is_json_space :: "char \<Rightarrow> bool" where
  "is_json_space c \<longleftrightarrow> c = CHR 0x20 \<or> c = CHR 0x09 \<or> c = CHR 0x0A \<or> c = CHR 0x0D"

definition hex_value :: "char \<Rightarrow> nat option" where
  "hex_value c =
     (let n = (of_char c :: nat)
      in if 48 \<le> n \<and> n \<le> 57 then Some (n - 48)
         else if 97 \<le> n \<and> n \<le> 102 then Some (n - 87)
         else if 65 \<le> n \<and> n \<le> 70 then Some (n - 55)
         else None)"

fun parse_string_chars :: "string \<Rightarrow> string \<Rightarrow> (string \<times> string) option" where
  "parse_string_chars [] acc = None"
| "parse_string_chars [c] acc = (if c = CHR 0x22 then Some (rev acc, []) else None)"
| "parse_string_chars (c # e # cs) acc =
     (if c = CHR 0x22 then Some (rev acc, e # cs)
      else if c = CHR 0x5C then
        (if e = CHR 0x22 \<or> e = CHR 0x5C \<or> e = CHR ''/'' then parse_string_chars cs (e # acc)
         else if e = CHR ''b'' then parse_string_chars cs (CHR 0x08 # acc)
         else if e = CHR ''f'' then parse_string_chars cs (CHR 0x0C # acc)
         else if e = CHR ''n'' then parse_string_chars cs (CHR 0x0A # acc)
         else if e = CHR ''r'' then parse_string_chars cs (CHR 0x0D # acc)
         else if e = CHR ''t'' then parse_string_chars cs (CHR 0x09 # acc)
         else if e = CHR ''u'' then
           (case map hex_value (take 4 cs) of
              [Some a, Some b, Some c', Some d] \<Rightarrow>
                if a = 0 \<and> b = 0 then parse_string_chars (drop 4 cs) (char_of (16 * c' + d) # acc)
                else None
            | _ \<Rightarrow> None)
         else None)
      else if (of_char c :: nat) < 32 then None
      else parse_string_chars (e # cs) (c # acc))"

definition parse_number :: "string \<Rightarrow> (int json \<times> string) option" where
  "parse_number s =
     (let negative = (s \<noteq> [] \<and> hd s = CHR ''-'');
          u = (if negative then tl s else s);
          ds = (if u \<noteq> [] \<and> hd u = CHR ''0'' then ''0'' else takeWhile is_digit u);
          r = drop (length ds) u
      in if ds = [] then None
         else if r \<noteq> [] \<and> (hd r = CHR ''.'' \<or> hd r = CHR ''e'' \<or> hd r = CHR ''E'') then None
         else Some (JNum (if negative then - digits_value ds else digits_value ds), r))"

fun parse_value :: "nat \<Rightarrow> string \<Rightarrow> (int json \<times> string) option"
  and parse_elements :: "nat \<Rightarrow> string \<Rightarrow> (int json list \<times> string) option"
  and parse_members :: "nat \<Rightarrow> string \<Rightarrow> ((string \<times> int json) list \<times> string) option"
where
  "parse_value 0 s = None"
| "parse_value (Suc n) s =
     (case dropWhile is_json_space s of
        [] \<Rightarrow> None
      | c # r \<Rightarrow>
          if c = CHR ''{'' then
            (case dropWhile is_json_space r of
               [] \<Rightarrow> None
             | c' # r' \<Rightarrow>
                 if c' = CHR ''}'' then Some (JObj [], r')
                 else (case parse_members n r of
                         None \<Rightarrow> None
                       | Some (kvs, r'') \<Rightarrow>
                           Some (JObj (foldl (\<lambda>obj p. set_property obj (fst p) (snd p)) [] kvs),
                                 r'')))
          else if c = CHR ''['' then
            (case dropWhile is_json_space r of
               [] \<Rightarrow> None
             | c' # r' \<Rightarrow>
                 if c' = CHR '']'' then Some (JArr [], r')
                 else (case parse_elements n r of
                         None \<Rightarrow> None
                       | Some (vs, r'') \<Rightarrow> Some (JArr vs, r'')))
          else if c = CHR 0x22 then
            (case parse_string_chars r [] of
               None \<Rightarrow> None
             | Some (str, r') \<Rightarrow> Some (JStr str, r'))
          else if c = CHR ''-'' \<or> is_digit c then parse_number (c # r)
          else if take 4 (c # r) = ''null'' then Some (JNull, drop 4 (c # r))
          else if take 4 (c # r) = ''true'' then Some (JBool True, drop 4 (c # r))
          else if take 5 (c # r) = ''false'' then Some (JBool False, drop 5 (c # r))
          else None)"
| "parse_elements 0 s = None"
| "parse_elements (Suc n) s =
     (case parse_value n s of
        None \<Rightarrow> None
      | Some (v, r) \<Rightarrow>
          (case dropWhile is_json_space r of
             [] \<Rightarrow> None
           | c # r' \<Rightarrow>
               if c = CHR '','' then
                 (case parse_elements n r' of
                    None \<Rightarrow> None
                  | Some (vs, r'') \<Rightarrow> Some (v # vs, r''))
               else if c = CHR '']'' then Some ([v], r')
               else None))"
| "parse_members 0 s = None"
| "parse_members (Suc n) s =
     (case dropWhile is_json_space s of
        [] \<Rightarrow> None
      | q # r \<Rightarrow>
          if q \<noteq> CHR 0x22 then None
          else
            (case parse_string_chars r [] of
               None \<Rightarrow> None
             | Some (k, r1) \<Rightarrow>
                 (case dropWhile is_json_space r1 of
                    [] \<Rightarrow> None
                  | colon # r2 \<Rightarrow>
                      if colon \<noteq> CHR '':'' then None
                      else
                        (case parse_value n r2 of
                           None \<Rightarrow> None
                         | Some (v, r3) \<Rightarrow>
                             (case dropWhile is_json_space r3 of
                                [] \<Rightarrow> None
                              | c # r4 \<Rightarrow>
                                  if c = CHR '','' then
                                    (case parse_members n r4 of
                                       None \<Rightarrow> None
                                     | Some (kvs, r5) \<Rightarrow> Some ((k, v) # kvs, r5))
                                  else if c = CHR ''}'' then Some ([(k, v)], r4)
                                  else None)))))"

definition parse_json :: "string \<Rightarrow> int json option" where
  "parse_json s =
     (case parse_value (2 * length s + 2) s of
        None \<Rightarrow> None
      | Some (v, r) \<Rightarrow> if dropWhile is_json_space r = [] then Some v else None)"

definition reference_node :: "string option \<Rightarrow> (memfs, int) node" where
  "reference_node home =
     \<lparr>node_available = True, os_homedir = home,
      path_join = posix_join, path_dirname = posix_dirname,
      fs_existsSync = mem_existsSync, fs_mkdirSync = mem_mkdirSync,
      fs_readFileSync = mem_readFileSync, fs_writeFileSync = mem_writeFileSync,
      JSON_parse = parse_json, JSON_stringify = stringify_at 0\<rparr>"

section \<open>Example inputs\<close>

definition example_app :: app where
  "example_app =
     \<lparr>basePath = ''/vault'', manifest_dir = ''.obsidian/plugins/mcp'',
      local_rest_api = Some (LocalRestApiPlugin (Some \<lparr>port = 27124, rest_apiKey = ''secret''\<rparr>))\<rparr>"

definition example_settings :: "string \<Rightarrow> MyPluginSettings" where
  "example_settings p =
     \<lparr>claudeConfigPath = p, uvPath = None, historyFolder = None, maxHistoryFiles = 100\<rparr>"

definition example_entry :: "int json" where
  "example_entry =
     JObj [(''command'', JStr ''uv''),
           (''args'', JArr [JStr ''tool'', JStr ''run'',
                            JStr ''/vault/.obsidian/plugins/mcp/python-packages/obsidian-mcp-server'']),
           (''env'', JObj [(''OBSIDIAN_API_KEY'', JStr ''secret''),
                           (''OBSIDIAN_HOST'', JStr ''https://127.0.0.1:27124''),
                           (''OBSIDIAN_HISTORY_FOLDER'', JNull),
                           (''OBSIDIAN_MAX_HISTORY_FILES'', JStr ''100'')])]"

text \<open>The settings tab as \<^verbatim>\<open>display()\<close> leaves it, for a given target path.\<close>

definition example_tab :: "string \<Rightarrow> int SampleSettingTab" where
  "example_tab p =
     \<lparr>settings = example_settings p, saved = None,
      McpJsonConfig = Some [(ENTRY_KEY, example_entry)],
      configTextArea = stringify_at 0 (JObj [(ENTRY_KEY, example_entry)]),
      maxHistoryText = ''100'', shown = []\<rparr>"

text \<open>
  The document written when there was none, an existing document with members of its
  own and its text, and that document with the entry merged in.
\<close>

definition example_document :: "int json" where
  "example_document = JObj [(''mcpServers'', JObj [(ENTRY_KEY, example_entry)])]"

definition example_existing :: "(string \<times> int json) list" where
  "example_existing =
     [(''unrelated'', JNum 1), (''mcpServers'', JObj [(''other'', JObj [(''x'', JNum 1)])])]"

definition example_existing_text :: string where
  "example_existing_text = ''{\"unrelated\": 1, \"mcpServers\": {\"other\": {\"x\":1}}}''"

definition example_merged :: "int json" where
  "example_merged =
     JObj [(''unrelated'', JNum 1),
           (''mcpServers'', JObj [(''other'', JObj [(''x'', JNum 1)]),
                                  (ENTRY_KEY, example_entry)])]"

section \<open>Properties of objects and strings\<close>

lemma get_set_property_same: "get_property (set_property kvs k v) k = Some v"
  by (induction kvs) auto

lemma get_set_property_other: "k' \<noteq> k \<Longrightarrow> get_property (set_property kvs k v) k' = get_property kvs k'"
  by (induction kvs) auto

lemma set_property_twice: "set_property (set_property kvs k v) k w = set_property kvs k w"
  by (induction kvs) auto

lemma set_property_same_value: "get_property kvs k = Some v \<Longrightarrow> set_property kvs k v = kvs"
  by (induction kvs) (auto split: if_splits)

lemma keys_set_property:
  "map fst (set_property kvs k v) = (if k \<in> set (map fst kvs) then map fst kvs else map fst kvs @ [k])"
  by (induction kvs) force+

lemma filter_set_property:
  "filter (\<lambda>p. fst p \<noteq> k) (set_property kvs k v) = filter (\<lambda>p. fst p \<noteq> k) kvs"
  by (induction kvs) auto

lemma get_remove_property_same: "get_property (remove_property kvs k) k = None"
  by (induction kvs) auto

lemma get_remove_property_other:
  "k' \<noteq> k \<Longrightarrow> get_property (remove_property kvs k) k' = get_property kvs k'"
  by (induction kvs) auto

lemma remove_property_twice: "remove_property (remove_property kvs k) k = remove_property kvs k"
  by (induction kvs) auto

lemma filter_remove_property:
  "filter (\<lambda>p. fst p \<noteq> k) (remove_property kvs k) = filter (\<lambda>p. fst p \<noteq> k) kvs"
  by (induction kvs) auto

lemma get_assign_property_same: "get_property (assign_property kvs k v) k = v"
  by (cases v) (simp_all add: assign_property_def get_set_property_same get_remove_property_same)

lemma get_assign_property_other:
  "k' \<noteq> k \<Longrightarrow> get_property (assign_property kvs k v) k' = get_property kvs k'"
  by (cases v) (simp_all add: assign_property_def get_set_property_other get_remove_property_other)

lemma assign_property_twice:
  "assign_property (assign_property kvs k v) k v = assign_property kvs k v"
  by (cases v) (simp_all add: assign_property_def set_property_twice remove_property_twice)

lemma filter_assign_property:
  "filter (\<lambda>p. fst p \<noteq> k) (assign_property kvs k v) = filter (\<lambda>p. fst p \<noteq> k) kvs"
  by (cases v) (simp_all add: assign_property_def filter_set_property filter_remove_property)

lemma trim_empty_iff: "trim s = [] \<longleftrightarrow> (\<forall>c \<in> set s. is_white_space c)"
proof -
  have "trim s = [] \<longleftrightarrow> (\<forall>c \<in> set (dropWhile is_white_space s). is_white_space c)"
    by (simp add: trim_def dropWhile_eq_Nil_conv)
  also have "\<dots> \<longleftrightarrow> dropWhile is_white_space s = []"
  proof
    assume all: "\<forall>c \<in> set (dropWhile is_white_space s). is_white_space c"
    show "dropWhile is_white_space s = []"
    proof (rule ccontr)
      assume "dropWhile is_white_space s \<noteq> []"
      then have "\<not> is_white_space (hd (dropWhile is_white_space s))"
        by (rule hd_dropWhile)
      moreover from \<open>dropWhile is_white_space s \<noteq> []\<close>
      have "hd (dropWhile is_white_space s) \<in> set (dropWhile is_white_space s)"
        by simp
      ultimately show False using all by blast
    qed
  next
    assume "dropWhile is_white_space s = []"
    then show "\<forall>c \<in> set (dropWhile is_white_space s). is_white_space c"
      by (simp only: list.set ball_empty)
  qed
  also have "\<dots> \<longleftrightarrow> (\<forall>c \<in> set s. is_white_space c)"
    by (simp add: dropWhile_eq_Nil_conv)
  finally show ?thesis .
qed

section \<open>The synthesized entry\<close>

text \<open>
  C7.  Whatever the settings and the credentials, the entry stored by
  \<^verbatim>\<open>_updateMcpJsonConfigDisplay\<close> under the entry key has as \<open>command\<close> the configured
  \<open>uvPath\<close> when it is set and not empty and \<open>uv\<close> otherwise, and an \<open>env\<close> object with
  exactly four keys: \<open>OBSIDIAN_API_KEY\<close> and \<open>OBSIDIAN_HOST\<close> hold the API key and the URL
  of the credentials, present with value \<open>null\<close> when the credential is \<open>null\<close>;
  \<open>OBSIDIAN_HISTORY_FOLDER\<close> holds the history folder, or \<open>null\<close> when it is \<open>null\<close>;
  \<open>OBSIDIAN_MAX_HISTORY_FILES\<close> holds the decimal string of the history limit.
\<close>

theorem synthesized_entry_fields:
  fixes rt :: "('fs, 'n) node"
  shows "\<exists>config env.
    McpJsonConfig (updateMcpJsonConfigDisplay rt a c t) = Some config \<and>
    Object_keys config = [ENTRY_KEY] \<and>
    get_path (JObj config) [ENTRY_KEY, ''command''] =
      Some (JStr (case uvPath (settings t) of
                    None \<Rightarrow> ''uv'' | Some p \<Rightarrow> if p = [] then ''uv'' else p)) \<and>
    get_path (JObj config) [ENTRY_KEY, ''env''] = Some (JObj env) \<and>
    Object_keys env = [''OBSIDIAN_API_KEY'', ''OBSIDIAN_HOST'', ''OBSIDIAN_HISTORY_FOLDER'',
                       ''OBSIDIAN_MAX_HISTORY_FILES''] \<and>
    get_property env ''OBSIDIAN_HOST'' =
      Some (case url c of None \<Rightarrow> JNull | Some u \<Rightarrow> JStr u) \<and>
    get_property env ''OBSIDIAN_API_KEY'' =
      Some (case apiKey c of None \<Rightarrow> JNull | Some k \<Rightarrow> JStr k) \<and>
    get_property env ''OBSIDIAN_HISTORY_FOLDER'' =
      Some (case historyFolder (settings t) of None \<Rightarrow> JNull | Some f \<Rightarrow> JStr f) \<and>
    get_property env ''OBSIDIAN_MAX_HISTORY_FILES'' =
      Some (JStr (String_number (maxHistoryFiles (settings t))))"
  by (simp add: updateMcpJsonConfigDisplay_def mcp_entry_def nullable_def Object_keys_def
      ENTRY_KEY_def Let_def)

section \<open>Merging the entry into a document\<close>

lemma merge_entry_object: "is_object_value d \<Longrightarrow> is_object_value (merge_entry d e)"
  by (cases d)
     (auto simp: merge_entry_def ensure_mcpServers_def set_entry_def get_set_property_same
           split: option.splits json.splits)

lemma merge_entry_idem: "merge_entry (merge_entry d e) e = merge_entry d e"
  by (cases d)
     (auto simp: merge_entry_def ensure_mcpServers_def set_entry_def get_set_property_same
                 set_property_twice assign_property_twice
           split: option.splits json.splits)

lemma merge_entry_frame:
  "\<exists>kvs'. merge_entry (JObj kvs) (Some fragment) = JObj kvs'
     \<and> filter (\<lambda>p. fst p \<noteq> ''mcpServers'') kvs' = filter (\<lambda>p. fst p \<noteq> ''mcpServers'') kvs
     \<and> (\<forall>k. k \<noteq> ''mcpServers'' \<longrightarrow> get_property kvs' k = get_property kvs k)
     \<and> (case get_property kvs ''mcpServers'' of
           Some (JObj servers) \<Rightarrow>
             (\<exists>servers'. get_property kvs' ''mcpServers'' = Some (JObj servers')
                \<and> filter (\<lambda>p. fst p \<noteq> ENTRY_KEY) servers' = filter (\<lambda>p. fst p \<noteq> ENTRY_KEY) servers
                \<and> (\<forall>k. k \<noteq> ENTRY_KEY \<longrightarrow> get_property servers' k = get_property servers k)
                \<and> get_property servers' ENTRY_KEY = Some fragment)
         | Some (JArr xs) \<Rightarrow> get_property kvs' ''mcpServers'' = Some (JArr xs)
         | _ \<Rightarrow> get_property kvs' ''mcpServers'' = Some (JObj [(ENTRY_KEY, fragment)]))"
  by (auto simp: merge_entry_def ensure_mcpServers_def set_entry_def get_set_property_same
        get_set_property_other filter_set_property assign_property_def
        split: option.splits json.splits)

section \<open>The click handler, step by step\<close>

lemma onClick_proceeds:
  assumes "\<not> (\<forall>c \<in> set (claudeConfigPath (settings t)). is_white_space c)"
    and "McpJsonConfig t = Some config" and "config \<noteq> []"
    and "expand_tilde rt (claudeConfigPath (settings t)) = (target, ns)"
  shows "onClick_updateJson rt t fs =
           (update_file rt target (get_property config ENTRY_KEY) fs)
             \<lparr>notices := ns @ notices (update_file rt target (get_property config ENTRY_KEY) fs)\<rparr>"
proof -
  from assms(1) have "claudeConfigPath (settings t) \<noteq> []" by auto
  moreover from assms(1) have "trim (claudeConfigPath (settings t)) \<noteq> []"
    by (simp add: trim_empty_iff)
  ultimately show ?thesis using assms(2-4)
    by (simp add: onClick_updateJson_def Object_keys_def Let_def)
qed

lemma load_existing_object:
  "load_existing rt p fs = (Some d0, cs, ns) \<Longrightarrow> is_object_value d0"
  by (auto simp: load_existing_def split: if_splits option.splits)

lemma update_file_document:
  assumes "document (update_file rt p e fs) = Some d"
  shows "\<exists>d0. is_object_value d0 \<and> d = merge_entry d0 e"
  using assms
  by (auto simp: update_file_def write_merged_def Let_def
      split: if_splits option.splits prod.splits attempt.splits)
     (blast dest: load_existing_object)+

text \<open>
  What holds of a file whose content parses to a value that is neither an object nor
  an array: the handler tells the user and returns, and nothing is written.
\<close>

lemma scalar_document_is_left_alone:
  fixes rt :: "('fs, 'n) node"
  assumes "\<not> (\<forall>c \<in> set (claudeConfigPath (settings t)). is_white_space c)"
    and "McpJsonConfig t = Some config" and "config \<noteq> []"
    and "node_available rt"
    and "expand_tilde rt (claudeConfigPath (settings t)) = (target, ns)"
    and "ensure_directory rt (path_dirname rt target) fs = (Returned fs1, cs1, ns1)"
    and "fs_existsSync rt fs1 target"
    and "fs_readFileSync rt fs1 target = Some fileContent"
    and "JSON_parse rt fileContent = Some v" and "\<not> is_object_value v"
  shows "onClick_updateJson rt t fs =
           \<lparr>disk = fs1, calls = cs1 @ [ExistsSync target, ReadFileSync target],
            notices = ns @ ns1 @ [ExistingFileNotUpdatable target], document = None\<rparr>"
  using onClick_proceeds [OF assms(1,2,3,5)] assms(4,6-10)
  by (simp add: update_file_def load_existing_def)

section \<open>Results about the click handler\<close>

text \<open>
  C1 (the code departs from the claim).  The file at the target path holds the array
  \<open>[1,2,3]\<close>.  The test at line 490 lets an array through, the entry is set as a named
  property of the array and lost when the array is written: the handler writes the
  array back in its indented form and reports that the configuration was updated.
\<close>

theorem array_file_is_rewritten:
  "onClick_updateJson (reference_node None) (example_tab ''/cfg/c.json'')
     \<lparr>files = [(''/cfg/c.json'', ''[1,2,3]'')], dirs = [''/cfg'']\<rparr>
   = \<lparr>disk = \<lparr>files = [(''/cfg/c.json'',
                         ''['' @ [CHR 0x0A] @ ''  1,'' @ [CHR 0x0A] @ ''  2,'' @ [CHR 0x0A]
                         @ ''  3'' @ [CHR 0x0A] @ '']'')],
              dirs = [''/cfg'']\<rparr>,
      calls = [ExistsSync ''/cfg'', ExistsSync ''/cfg/c.json'', ReadFileSync ''/cfg/c.json'',
               WriteFileSync ''/cfg/c.json''
                 (''['' @ [CHR 0x0A] @ ''  1,'' @ [CHR 0x0A] @ ''  2,'' @ [CHR 0x0A]
                  @ ''  3'' @ [CHR 0x0A] @ '']'')],
      notices = [ConfigurationUpdated ''/cfg/c.json''],
      document = Some (JArr [JNum 1, JNum 2, JNum 3])\<rparr>"
  by code_simp


text \<open>
  C3.  When the file at the target path holds a JSON object and the write succeeds,
  the document written has every member of the old document other than \<open>mcpServers\<close>,
  in the same order and with the same value.  Under \<open>mcpServers\<close>, when that was an
  object, every entry other than the plugin's own is kept, in order and value, and the
  plugin's entry is the fragment; when it was an array it is kept as it is; when it
  was absent or any other value it becomes the object that holds the fragment alone.
\<close>

theorem merge_preserves_other_members:
  fixes rt :: "('fs, 'n) node"
  assumes path: "\<not> (\<forall>c \<in> set (claudeConfigPath (settings t)). is_white_space c)"
    and config: "McpJsonConfig t = Some config"
    and fragment: "get_property config ENTRY_KEY = Some fragment"
    and node: "node_available rt"
    and target: "expand_tilde rt (claudeConfigPath (settings t)) = (target, ns)"
    and dir: "ensure_directory rt (path_dirname rt target) fs = (Returned fs1, cs1, ns1)"
    and present: "fs_existsSync rt fs1 target"
    and content: "fs_readFileSync rt fs1 target = Some fileContent"
    and parsed: "JSON_parse rt fileContent = Some (JObj kvs)"
    and written: "fs_writeFileSync rt fs1 target
                    (JSON_stringify rt (merge_entry (JObj kvs) (Some fragment))) = Returned fs2"
  shows "\<exists>kvs'.
      onClick_updateJson rt t fs =
        \<lparr>disk = fs2,
         calls = cs1 @ [ExistsSync target, ReadFileSync target,
                        WriteFileSync target (JSON_stringify rt (JObj kvs'))],
         notices = ns @ ns1 @ [ConfigurationUpdated target],
         document = Some (JObj kvs')\<rparr>
    \<and> filter (\<lambda>p. fst p \<noteq> ''mcpServers'') kvs' = filter (\<lambda>p. fst p \<noteq> ''mcpServers'') kvs
    \<and> (\<forall>k. k \<noteq> ''mcpServers'' \<longrightarrow> get_property kvs' k = get_property kvs k)
    \<and> (case get_property kvs ''mcpServers'' of
          Some (JObj servers) \<Rightarrow>
            (\<exists>servers'. get_property kvs' ''mcpServers'' = Some (JObj servers')
               \<and> filter (\<lambda>p. fst p \<noteq> ENTRY_KEY) servers' = filter (\<lambda>p. fst p \<noteq> ENTRY_KEY) servers
               \<and> (\<forall>k. k \<noteq> ENTRY_KEY \<longrightarrow> get_property servers' k = get_property servers k)
               \<and> get_property servers' ENTRY_KEY = Some fragment)
        | Some (JArr xs) \<Rightarrow> get_property kvs' ''mcpServers'' = Some (JArr xs)
        | _ \<Rightarrow> get_property kvs' ''mcpServers'' = Some (JObj [(ENTRY_KEY, fragment)]))"
proof -
  from fragment have nonempty: "config \<noteq> []" by auto
  obtain kvs' where merged: "merge_entry (JObj kvs) (Some fragment) = JObj kvs'"
    and frame: "filter (\<lambda>p. fst p \<noteq> ''mcpServers'') kvs' = filter (\<lambda>p. fst p \<noteq> ''mcpServers'') kvs"
      "\<forall>k. k \<noteq> ''mcpServers'' \<longrightarrow> get_property kvs' k = get_property kvs k"
      "(case get_property kvs ''mcpServers'' of
          Some (JObj servers) \<Rightarrow>
            (\<exists>servers'. get_property kvs' ''mcpServers'' = Some (JObj servers')
               \<and> filter (\<lambda>p. fst p \<noteq> ENTRY_KEY) servers' = filter (\<lambda>p. fst p \<noteq> ENTRY_KEY) servers
               \<and> (\<forall>k. k \<noteq> ENTRY_KEY \<longrightarrow> get_property servers' k = get_property servers k)
               \<and> get_property servers' ENTRY_KEY = Some fragment)
        | Some (JArr xs) \<Rightarrow> get_property kvs' ''mcpServers'' = Some (JArr xs)
        | _ \<Rightarrow> get_property kvs' ''mcpServers'' = Some (JObj [(ENTRY_KEY, fragment)]))"
    using merge_entry_frame [of kvs fragment] by blast
  have "onClick_updateJson rt t fs =
        \<lparr>disk = fs2,
         calls = cs1 @ [ExistsSync target, ReadFileSync target,
                        WriteFileSync target (JSON_stringify rt (JObj kvs'))],
         notices = ns @ ns1 @ [ConfigurationUpdated target],
         document = Some (JObj kvs')\<rparr>"
    using onClick_proceeds [OF path config nonempty target]
      node dir present content parsed written fragment merged
    by (simp add: update_file_def load_existing_def write_merged_def Let_def)
  with frame show ?thesis by blast
qed

text \<open>
  C4.  When the file at the target path exists and its content does not parse, the
  handler goes on with the empty object: it shows the notice that the existing file
  could not be read, writes the document \<open>{"mcpServers": {entry key: fragment}}\<close> and
  then shows the notice of success.
\<close>

theorem malformed_file_is_replaced_with_warning:
  fixes rt :: "('fs, 'n) node"
  assumes path: "\<not> (\<forall>c \<in> set (claudeConfigPath (settings t)). is_white_space c)"
    and config: "McpJsonConfig t = Some config"
    and fragment: "get_property config ENTRY_KEY = Some fragment"
    and node: "node_available rt"
    and target: "expand_tilde rt (claudeConfigPath (settings t)) = (target, ns)"
    and dir: "ensure_directory rt (path_dirname rt target) fs = (Returned fs1, cs1, ns1)"
    and present: "fs_existsSync rt fs1 target"
    and content: "fs_readFileSync rt fs1 target = Some fileContent"
    and malformed: "JSON_parse rt fileContent = None"
    and written: "fs_writeFileSync rt fs1 target
                    (JSON_stringify rt (JObj [(''mcpServers'', JObj [(ENTRY_KEY, fragment)])]))
                  = Returned fs2"
  shows "onClick_updateJson rt t fs =
           \<lparr>disk = fs2,
            calls = cs1 @ [ExistsSync target, ReadFileSync target,
                           WriteFileSync target
                             (JSON_stringify rt
                                (JObj [(''mcpServers'', JObj [(ENTRY_KEY, fragment)])]))],
            notices = ns @ ns1 @ [ErrorReadingExisting, ConfigurationUpdated target],
            document = Some (JObj [(''mcpServers'', JObj [(ENTRY_KEY, fragment)])])\<rparr>"
proof -
  from fragment have "config \<noteq> []" by auto
  from onClick_proceeds [OF path config this target]
  show ?thesis using node dir present content malformed written fragment
    by (simp add: update_file_def load_existing_def write_merged_def merge_entry_def
        ensure_mcpServers_def set_entry_def assign_property_def Let_def)
qed

text \<open>
  C5.  When nothing exists at the target path and the calls to \<^verbatim>\<open>fs\<close> succeed, the
  handler creates the directory of the file with \<^verbatim>\<open>mkdirSync(dir, {recursive: true})\<close>
  if \<^verbatim>\<open>existsSync\<close> does not find it, and writes the file; the document written has
  the one member \<open>mcpServers\<close>, an object whose one entry is the fragment under the
  entry key.
\<close>

theorem missing_file_is_created:
  fixes rt :: "('fs, 'n) node"
  assumes path: "\<not> (\<forall>c \<in> set (claudeConfigPath (settings t)). is_white_space c)"
    and config: "McpJsonConfig t = Some config"
    and fragment: "get_property config ENTRY_KEY = Some fragment"
    and node: "node_available rt"
    and target: "expand_tilde rt (claudeConfigPath (settings t)) = (target, ns)"
    and dir: "if fs_existsSync rt fs (path_dirname rt target) then fs1 = fs
              else fs_mkdirSync rt fs (path_dirname rt target) = Returned fs1"
    and missing: "\<not> fs_existsSync rt fs1 target"
    and written: "fs_writeFileSync rt fs1 target
                    (JSON_stringify rt (JObj [(''mcpServers'', JObj [(ENTRY_KEY, fragment)])]))
                  = Returned fs2"
  shows "onClick_updateJson rt t fs =
           \<lparr>disk = fs2,
            calls = ExistsSync (path_dirname rt target)
                    # (if fs_existsSync rt fs (path_dirname rt target) then []
                       else [MkdirSync (path_dirname rt target)])
                    @ [ExistsSync target,
                       WriteFileSync target
                         (JSON_stringify rt
                            (JObj [(''mcpServers'', JObj [(ENTRY_KEY, fragment)])]))],
            notices = ns @ (if fs_existsSync rt fs (path_dirname rt target) then []
                            else [CreatingDirectory (path_dirname rt target)])
                      @ [ConfigurationUpdated target],
            document = Some (JObj [(''mcpServers'', JObj [(ENTRY_KEY, fragment)])])\<rparr>"
proof -
  from fragment have "config \<noteq> []" by auto
  from onClick_proceeds [OF path config this target]
  show ?thesis using node dir missing written fragment
    by (cases "fs_existsSync rt fs (path_dirname rt target)")
       (simp_all add: update_file_def ensure_directory_def load_existing_def write_merged_def
          merge_entry_def ensure_mcpServers_def set_entry_def assign_property_def Let_def)
qed

text \<open>
  C6.  Take a click that came as far as writing the document \<open>d\<close>.  If the file system
  it leaves has the directory and the file, the file reads back as the text written,
  and that text parses back to \<open>d\<close>, then a second click with the same settings and
  the same fragment reads the file and writes the same text again: the document is
  \<open>d\<close> once more, with the same keys in the same places.
\<close>

theorem update_twice_writes_same_document:
  fixes rt :: "('fs, 'n) node"
  assumes path: "\<not> (\<forall>c \<in> set (claudeConfigPath (settings t)). is_white_space c)"
    and config: "McpJsonConfig t = Some config" "config \<noteq> []"
    and node: "node_available rt"
    and target: "expand_tilde rt (claudeConfigPath (settings t)) = (target, ns)"
    and first: "document (onClick_updateJson rt t fs) = Some d"
    and dir: "fs_existsSync rt (disk (onClick_updateJson rt t fs)) (path_dirname rt target)"
    and present: "fs_existsSync rt (disk (onClick_updateJson rt t fs)) target"
    and content: "fs_readFileSync rt (disk (onClick_updateJson rt t fs)) target
                    = Some (JSON_stringify rt d)"
    and roundtrip: "JSON_parse rt (JSON_stringify rt d) = Some d"
  shows "document (onClick_updateJson rt t (disk (onClick_updateJson rt t fs))) = Some d
       \<and> calls (onClick_updateJson rt t (disk (onClick_updateJson rt t fs)))
           = [ExistsSync (path_dirname rt target), ExistsSync target, ReadFileSync target,
              WriteFileSync target (JSON_stringify rt d)]"
proof -
  let ?e = "get_property config ENTRY_KEY"
  let ?fs1 = "disk (onClick_updateJson rt t fs)"
  from first onClick_proceeds [OF path config target, of fs]
  have doc: "document (update_file rt target ?e fs) = Some d" by simp
  from update_file_document [OF doc]
  obtain d0 where d0: "is_object_value d0" "d = merge_entry d0 ?e" by blast
  then have obj: "is_object_value d" and idem: "merge_entry d ?e = d"
    by (simp_all add: merge_entry_object merge_entry_idem)
  show ?thesis
    using onClick_proceeds [OF path config target, of ?fs1] node dir present content roundtrip
      obj idem
    by (auto simp: update_file_def load_existing_def write_merged_def ensure_directory_def Let_def
        split: attempt.splits)
qed

text \<open>
  C10.  When the configured path is empty or white space only, or \<^verbatim>\<open>McpJsonConfig\<close> is
  undefined or has no key, the handler shows one error notice and makes no call to
  \<^verbatim>\<open>fs\<close>: the file system is as it was.
\<close>

theorem update_without_path_or_fragment_touches_nothing:
  fixes rt :: "('fs, 'n) node"
  assumes "(\<forall>c \<in> set (claudeConfigPath (settings t)). is_white_space c)
           \<or> McpJsonConfig t = None \<or> McpJsonConfig t = Some []"
  shows "calls (onClick_updateJson rt t fs) = []
       \<and> disk (onClick_updateJson rt t fs) = fs
       \<and> document (onClick_updateJson rt t fs) = None
       \<and> (notices (onClick_updateJson rt t fs) = [PathNotSet]
          \<or> notices (onClick_updateJson rt t fs) = [NoConfigurationData])"
  using assms
  by (auto simp: onClick_updateJson_def trim_empty_iff Object_keys_def Let_def
           split: option.splits)

section \<open>Results about the settings tab\<close>

text \<open>
  What holds of the rejecting branch of the "Max History Files" handler: when
  \<^verbatim>\<open>parseInt\<close> of the text is \<^verbatim>\<open>NaN\<close> or negative, the settings, what was saved,
  \<^verbatim>\<open>McpJsonConfig\<close> and the text area are all as before; the input shows the stored
  limit again and the user gets a notice.
\<close>

lemma invalid_max_history_input_rejected:
  fixes rt :: "('fs, 'n) node"
  assumes "parseInt v = None \<or> (\<exists>n. parseInt v = Some n \<and> n < 0)"
  shows "settings (onChange_maxHistoryFiles rt a v t) = settings t
       \<and> saved (onChange_maxHistoryFiles rt a v t) = saved t
       \<and> McpJsonConfig (onChange_maxHistoryFiles rt a v t) = McpJsonConfig t
       \<and> configTextArea (onChange_maxHistoryFiles rt a v t) = configTextArea t
       \<and> maxHistoryText (onChange_maxHistoryFiles rt a v t)
           = String_number (maxHistoryFiles (settings t))
       \<and> shown (onChange_maxHistoryFiles rt a v t) = shown t @ [InvalidInteger]"
  using assms
  by (auto simp: onChange_maxHistoryFiles_def Let_def)

text \<open>
  C8 (the code departs from the claim).  The text \<open>1.5\<close> is not an integer, and the
  handler's own notice asks for a valid integer; but \<^verbatim>\<open>parseInt\<close> reads the leading
  digits and ignores the rest, so the handler takes the accepting branch: the limit 100
  becomes 1, the settings are saved, the entry shows the new limit, and no notice is
  shown.  The same happens with \<open>12abc\<close> (stored as 12) and \<open>1e3\<close> (stored as 1).
\<close>

theorem fractional_input_is_stored_truncated:
  "parseInt ''1.5'' = Some 1 \<and> parseInt ''12abc'' = Some 12 \<and> parseInt ''1e3'' = Some 1
   \<and> maxHistoryFiles (settings (example_tab ''/cfg/c.json'')) = 100
   \<and> maxHistoryFiles (settings (onChange_maxHistoryFiles (reference_node None) example_app ''1.5''
                                   (example_tab ''/cfg/c.json''))) = 1
   \<and> saved (onChange_maxHistoryFiles (reference_node None) example_app ''1.5''
              (example_tab ''/cfg/c.json''))
       = Some ((example_settings ''/cfg/c.json'')\<lparr>maxHistoryFiles := 1\<rparr>)
   \<and> shown (onChange_maxHistoryFiles (reference_node None) example_app ''1.5''
              (example_tab ''/cfg/c.json'')) = []
   \<and> maxHistoryText (onChange_maxHistoryFiles (reference_node None) example_app ''1.5''
                       (example_tab ''/cfg/c.json'')) = ''1.5''
   \<and> map_option (\<lambda>config. get_path (JObj config)
                              [ENTRY_KEY, ''env'', ''OBSIDIAN_MAX_HISTORY_FILES''])
        (McpJsonConfig (onChange_maxHistoryFiles (reference_node None) example_app ''1.5''
                          (example_tab ''/cfg/c.json'')))
       = Some (Some (JStr ''1''))"
  by code_simp

text \<open>
  C9 (as the code has it).  The entry is built from the three settings \<^verbatim>\<open>uvPath\<close>,
  \<^verbatim>\<open>historyFolder\<close> and \<^verbatim>\<open>maxHistoryFiles\<close>, the credentials, and the vault base
  path and the plugin directory of the host.  Two runs of
  \<^verbatim>\<open>_updateMcpJsonConfigDisplay\<close> that agree on these, with the same \<^verbatim>\<open>path.join\<close>
  and \<^verbatim>\<open>JSON.stringify\<close>, store the same \<^verbatim>\<open>McpJsonConfig\<close> and show the same text,
  whatever the configured target path, the registry of plugins and the earlier content
  of the tab are.
\<close>

theorem synthesis_deterministic:
  fixes rt1 :: "('fs1, 'n) node" and rt2 :: "('fs2, 'n) node"
  assumes "path_join rt1 = path_join rt2" and "JSON_stringify rt1 = JSON_stringify rt2"
    and "basePath a1 = basePath a2" and "manifest_dir a1 = manifest_dir a2"
    and "uvPath (settings t1) = uvPath (settings t2)"
    and "historyFolder (settings t1) = historyFolder (settings t2)"
    and "maxHistoryFiles (settings t1) = maxHistoryFiles (settings t2)"
    and "c1 = c2"
  shows "McpJsonConfig (updateMcpJsonConfigDisplay rt1 a1 c1 t1)
           = McpJsonConfig (updateMcpJsonConfigDisplay rt2 a2 c2 t2)
       \<and> configTextArea (updateMcpJsonConfigDisplay rt1 a1 c1 t1)
           = configTextArea (updateMcpJsonConfigDisplay rt2 a2 c2 t2)"
  using assms by (simp add: updateMcpJsonConfigDisplay_def mcp_entry_def Let_def)

section \<open>The results on the example inputs\<close>

text \<open>
  Each result above that has a hypothesis is applied here to example inputs on the
  reference runtime, where its hypotheses hold.
\<close>



theorem merge_preserves_other_members_witness:
  "fs_readFileSync (reference_node None)
      \<lparr>files = [(''/cfg/c.json'', example_existing_text)], dirs = [''/cfg'']\<rparr> ''/cfg/c.json''
     = Some example_existing_text
   \<and> JSON_parse (reference_node None) example_existing_text = Some (JObj example_existing)
   \<and> (\<exists>kvs'. document (onClick_updateJson (reference_node None) (example_tab ''/cfg/c.json'')
                   \<lparr>files = [(''/cfg/c.json'', example_existing_text)], dirs = [''/cfg'']\<rparr>)
               = Some (JObj kvs')
        \<and> get_property kvs' ''unrelated'' = Some (JNum 1)
        \<and> get_path (JObj kvs') [''mcpServers'', ''other''] = Some (JObj [(''x'', JNum 1)])
        \<and> get_path (JObj kvs') [''mcpServers'', ENTRY_KEY] = Some example_entry)"
proof -
  let ?t = "example_tab ''/cfg/c.json''"
  let ?rt = "reference_node None"
  let ?fs = "\<lparr>files = [(''/cfg/c.json'', example_existing_text)], dirs = [''/cfg'']\<rparr>"
  let ?fs2 = "\<lparr>files = [(''/cfg/c.json'', stringify_at 0 example_merged)], dirs = [''/cfg'']\<rparr>"
  have path: "\<not> (\<forall>c \<in> set (claudeConfigPath (settings ?t)). is_white_space c)"
    by code_simp
  have config: "McpJsonConfig ?t = Some [(ENTRY_KEY, example_entry)]"
    by (simp add: example_tab_def)
  have fragment: "get_property [(ENTRY_KEY, example_entry)] ENTRY_KEY = Some example_entry"
    by simp
  have node: "node_available ?rt" by (simp add: reference_node_def)
  have target: "expand_tilde ?rt (claudeConfigPath (settings ?t)) = (''/cfg/c.json'', [])"
    by code_simp
  have dir: "ensure_directory ?rt (path_dirname ?rt ''/cfg/c.json'') ?fs
               = (Returned ?fs, [ExistsSync ''/cfg''], [])"
    by code_simp
  have present: "fs_existsSync ?rt ?fs ''/cfg/c.json''" by code_simp
  have content: "fs_readFileSync ?rt ?fs ''/cfg/c.json'' = Some example_existing_text"
    by code_simp
  have parsed: "JSON_parse ?rt example_existing_text = Some (JObj example_existing)"
    by code_simp
  have written: "fs_writeFileSync ?rt ?fs ''/cfg/c.json''
                   (JSON_stringify ?rt (merge_entry (JObj example_existing) (Some example_entry)))
                 = Returned ?fs2"
    by code_simp
  have servers: "get_property example_existing ''mcpServers''
                   = Some (JObj [(''other'', JObj [(''x'', JNum 1)])])"
    and unrelated: "get_property example_existing ''unrelated'' = Some (JNum 1)"
    by (simp_all add: example_existing_def)
  have other: "''other'' \<noteq> ENTRY_KEY" and distinct: "''unrelated'' \<noteq> ''mcpServers''"
    by (simp_all add: ENTRY_KEY_def)
  from merge_preserves_other_members
         [OF path config fragment node target dir present content parsed written]
  obtain kvs' where
    outcome: "document (onClick_updateJson ?rt ?t ?fs) = Some (JObj kvs')"
    and top: "\<forall>k. k \<noteq> ''mcpServers'' \<longrightarrow> get_property kvs' k = get_property example_existing k"
    and under: "\<exists>servers'. get_property kvs' ''mcpServers'' = Some (JObj servers')
       \<and> (\<forall>k. k \<noteq> ENTRY_KEY \<longrightarrow>
              get_property servers' k = get_property [(''other'', JObj [(''x'', JNum 1)])] k)
       \<and> get_property servers' ENTRY_KEY = Some example_entry"
    unfolding servers by auto
  from under obtain servers' where
    s1: "get_property kvs' ''mcpServers'' = Some (JObj servers')"
    and s2: "\<forall>k. k \<noteq> ENTRY_KEY \<longrightarrow>
               get_property servers' k = get_property [(''other'', JObj [(''x'', JNum 1)])] k"
    and s3: "get_property servers' ENTRY_KEY = Some example_entry"
    by blast
  from top distinct unrelated have "get_property kvs' ''unrelated'' = Some (JNum 1)" by simp
  moreover from s1 s2 other
  have "get_path (JObj kvs') [''mcpServers'', ''other''] = Some (JObj [(''x'', JNum 1)])"
    by simp
  moreover from s1 s3
  have "get_path (JObj kvs') [''mcpServers'', ENTRY_KEY] = Some example_entry"
    by simp
  ultimately show ?thesis using outcome content parsed by blast
qed

theorem malformed_file_is_replaced_with_warning_witness:
  "fs_readFileSync (reference_node None)
      \<lparr>files = [(''/cfg/c.json'', ''not json{'')], dirs = [''/cfg'']\<rparr> ''/cfg/c.json''
     = Some ''not json{''
   \<and> JSON_parse (reference_node None) ''not json{'' = None
   \<and> onClick_updateJson (reference_node None) (example_tab ''/cfg/c.json'')
        \<lparr>files = [(''/cfg/c.json'', ''not json{'')], dirs = [''/cfg'']\<rparr>
     = \<lparr>disk = \<lparr>files = [(''/cfg/c.json'', stringify_at 0 example_document)],
                dirs = [''/cfg'']\<rparr>,
        calls = [ExistsSync ''/cfg'', ExistsSync ''/cfg/c.json'', ReadFileSync ''/cfg/c.json'',
                 WriteFileSync ''/cfg/c.json'' (stringify_at 0 example_document)],
        notices = [ErrorReadingExisting, ConfigurationUpdated ''/cfg/c.json''],
        document = Some example_document\<rparr>"
proof -
  let ?t = "example_tab ''/cfg/c.json''"
  let ?rt = "reference_node None"
  let ?fs = "\<lparr>files = [(''/cfg/c.json'', ''not json{'')], dirs = [''/cfg'']\<rparr>"
  let ?fs2 = "\<lparr>files = [(''/cfg/c.json'', stringify_at 0 example_document)],
              dirs = [''/cfg'']\<rparr>"
  have path: "\<not> (\<forall>c \<in> set (claudeConfigPath (settings ?t)). is_white_space c)"
    by code_simp
  have config: "McpJsonConfig ?t = Some [(ENTRY_KEY, example_entry)]"
    by (simp add: example_tab_def)
  have fragment: "get_property [(ENTRY_KEY, example_entry)] ENTRY_KEY = Some example_entry"
    by simp
  have node: "node_available ?rt" by (simp add: reference_node_def)
  have target: "expand_tilde ?rt (claudeConfigPath (settings ?t)) = (''/cfg/c.json'', [])"
    by code_simp
  have dir: "ensure_directory ?rt (path_dirname ?rt ''/cfg/c.json'') ?fs
               = (Returned ?fs, [ExistsSync ''/cfg''], [])"
    by code_simp
  have present: "fs_existsSync ?rt ?fs ''/cfg/c.json''" by code_simp
  have content: "fs_readFileSync ?rt ?fs ''/cfg/c.json'' = Some ''not json{''"
    by code_simp
  have malformed: "JSON_parse ?rt ''not json{'' = None" by code_simp
  have written: "fs_writeFileSync ?rt ?fs ''/cfg/c.json''
                   (JSON_stringify ?rt (JObj [(''mcpServers'', JObj [(ENTRY_KEY, example_entry)])]))
                 = Returned ?fs2"
    by code_simp
  have serial: "JSON_stringify ?rt (JObj [(''mcpServers'', JObj [(ENTRY_KEY, example_entry)])])
                = stringify_at 0 example_document"
    by (simp add: reference_node_def example_document_def)
  from malformed_file_is_replaced_with_warning
         [OF path config fragment node target dir present content malformed written]
  show ?thesis using content malformed
    by (simp add: serial example_document_def)
qed

theorem missing_file_is_created_witness:
  "\<not> fs_existsSync (reference_node None) \<lparr>files = [], dirs = []\<rparr> ''/cfg/claude''
   \<and> fs_mkdirSync (reference_node None) \<lparr>files = [], dirs = []\<rparr> ''/cfg/claude''
       = Returned \<lparr>files = [], dirs = [''/cfg'', ''/cfg/claude'']\<rparr>
   \<and> \<not> fs_existsSync (reference_node None) \<lparr>files = [], dirs = [''/cfg'', ''/cfg/claude'']\<rparr>
         ''/cfg/claude/c.json''
   \<and> onClick_updateJson (reference_node None) (example_tab ''/cfg/claude/c.json'')
        \<lparr>files = [], dirs = []\<rparr>
     = \<lparr>disk = \<lparr>files = [(''/cfg/claude/c.json'', stringify_at 0 example_document)],
                dirs = [''/cfg'', ''/cfg/claude'']\<rparr>,
        calls = [ExistsSync ''/cfg/claude'', MkdirSync ''/cfg/claude'',
                 ExistsSync ''/cfg/claude/c.json'',
                 WriteFileSync ''/cfg/claude/c.json'' (stringify_at 0 example_document)],
        notices = [CreatingDirectory ''/cfg/claude'', ConfigurationUpdated ''/cfg/claude/c.json''],
        document = Some example_document\<rparr>"
proof -
  let ?t = "example_tab ''/cfg/claude/c.json''"
  let ?rt = "reference_node None"
  let ?fs = "\<lparr>files = [], dirs = []\<rparr>"
  let ?fs1 = "\<lparr>files = [], dirs = [''/cfg'', ''/cfg/claude'']\<rparr>"
  let ?fs2 = "\<lparr>files = [(''/cfg/claude/c.json'', stringify_at 0 example_document)],
              dirs = [''/cfg'', ''/cfg/claude'']\<rparr>"
  have path: "\<not> (\<forall>c \<in> set (claudeConfigPath (settings ?t)). is_white_space c)"
    by code_simp
  have config: "McpJsonConfig ?t = Some [(ENTRY_KEY, example_entry)]"
    by (simp add: example_tab_def)
  have fragment: "get_property [(ENTRY_KEY, example_entry)] ENTRY_KEY = Some example_entry"
    by simp
  have node: "node_available ?rt" by (simp add: reference_node_def)
  have target: "expand_tilde ?rt (claudeConfigPath (settings ?t)) = (''/cfg/claude/c.json'', [])"
    by code_simp
  have dirname: "path_dirname ?rt ''/cfg/claude/c.json'' = ''/cfg/claude''" by code_simp
  have nodir: "\<not> fs_existsSync ?rt ?fs ''/cfg/claude''" by code_simp
  have mkdir: "fs_mkdirSync ?rt ?fs ''/cfg/claude'' = Returned ?fs1" by code_simp
  have dir: "if fs_existsSync ?rt ?fs (path_dirname ?rt ''/cfg/claude/c.json'') then ?fs1 = ?fs
             else fs_mkdirSync ?rt ?fs (path_dirname ?rt ''/cfg/claude/c.json'') = Returned ?fs1"
    using nodir mkdir by (simp add: dirname)
  have missing: "\<not> fs_existsSync ?rt ?fs1 ''/cfg/claude/c.json''" by code_simp
  have written: "fs_writeFileSync ?rt ?fs1 ''/cfg/claude/c.json''
                   (JSON_stringify ?rt (JObj [(''mcpServers'', JObj [(ENTRY_KEY, example_entry)])]))
                 = Returned ?fs2"
    by code_simp
  have serial: "JSON_stringify ?rt (JObj [(''mcpServers'', JObj [(ENTRY_KEY, example_entry)])])
                = stringify_at 0 example_document"
    by (simp add: reference_node_def example_document_def)
  from missing_file_is_created [OF path config fragment node target dir missing written]
  show ?thesis using nodir mkdir missing
    by (simp add: serial dirname example_document_def)
qed

theorem update_twice_writes_same_document_witness:
  "document (onClick_updateJson (reference_node None) (example_tab ''/cfg/c.json'')
               \<lparr>files = [(''/cfg/c.json'', example_existing_text)], dirs = [''/cfg'']\<rparr>)
     = Some example_merged
   \<and> disk (onClick_updateJson (reference_node None) (example_tab ''/cfg/c.json'')
             \<lparr>files = [(''/cfg/c.json'', example_existing_text)], dirs = [''/cfg'']\<rparr>)
     = \<lparr>files = [(''/cfg/c.json'', stringify_at 0 example_merged)], dirs = [''/cfg'']\<rparr>
   \<and> JSON_parse (reference_node None) (JSON_stringify (reference_node None) example_merged)
     = Some example_merged
   \<and> document (onClick_updateJson (reference_node None) (example_tab ''/cfg/c.json'')
                \<lparr>files = [(''/cfg/c.json'', stringify_at 0 example_merged)], dirs = [''/cfg'']\<rparr>)
     = Some example_merged
   \<and> calls (onClick_updateJson (reference_node None) (example_tab ''/cfg/c.json'')
             \<lparr>files = [(''/cfg/c.json'', stringify_at 0 example_merged)], dirs = [''/cfg'']\<rparr>)
     = [ExistsSync ''/cfg'', ExistsSync ''/cfg/c.json'', ReadFileSync ''/cfg/c.json'',
        WriteFileSync ''/cfg/c.json'' (stringify_at 0 example_merged)]"
proof -
  let ?t = "example_tab ''/cfg/c.json''"
  let ?rt = "reference_node None"
  let ?fs = "\<lparr>files = [(''/cfg/c.json'', example_existing_text)], dirs = [''/cfg'']\<rparr>"
  let ?fs1 = "\<lparr>files = [(''/cfg/c.json'', stringify_at 0 example_merged)], dirs = [''/cfg'']\<rparr>"
  have path: "\<not> (\<forall>c \<in> set (claudeConfigPath (settings ?t)). is_white_space c)"
    by code_simp
  have config: "McpJsonConfig ?t = Some [(ENTRY_KEY, example_entry)]"
    by (simp add: example_tab_def)
  have nonempty: "[(ENTRY_KEY, example_entry)] \<noteq> []" by simp
  have node: "node_available ?rt" by (simp add: reference_node_def)
  have target: "expand_tilde ?rt (claudeConfigPath (settings ?t)) = (''/cfg/c.json'', [])"
    by code_simp
  have first: "document (onClick_updateJson ?rt ?t ?fs) = Some example_merged"
    by code_simp
  have disk1: "disk (onClick_updateJson ?rt ?t ?fs) = ?fs1"
    by code_simp
  have dirname: "path_dirname ?rt ''/cfg/c.json'' = ''/cfg''" by code_simp
  have serial: "JSON_stringify ?rt example_merged = stringify_at 0 example_merged"
    by (simp add: reference_node_def)
  have dir: "fs_existsSync ?rt (disk (onClick_updateJson ?rt ?t ?fs))
               (path_dirname ?rt ''/cfg/c.json'')"
    unfolding disk1 by code_simp
  have present: "fs_existsSync ?rt (disk (onClick_updateJson ?rt ?t ?fs)) ''/cfg/c.json''"
    unfolding disk1 by code_simp
  have content: "fs_readFileSync ?rt (disk (onClick_updateJson ?rt ?t ?fs)) ''/cfg/c.json''
                   = Some (JSON_stringify ?rt example_merged)"
    unfolding disk1 by code_simp
  have roundtrip: "JSON_parse ?rt (JSON_stringify ?rt example_merged) = Some example_merged"
    by code_simp
  from update_twice_writes_same_document
         [OF path config nonempty node target first dir present content roundtrip]
  show ?thesis using first disk1 roundtrip
    by (simp add: serial dirname)
qed

theorem update_without_path_or_fragment_touches_nothing_witness:
  "trim (claudeConfigPath (settings (example_tab ''   ''))) = []
   \<and> calls (onClick_updateJson (reference_node None) (example_tab ''   '')
              \<lparr>files = [(''/cfg/c.json'', ''{}'')], dirs = [''/cfg'']\<rparr>) = []
   \<and> disk (onClick_updateJson (reference_node None) (example_tab ''   '')
             \<lparr>files = [(''/cfg/c.json'', ''{}'')], dirs = [''/cfg'']\<rparr>)
       = \<lparr>files = [(''/cfg/c.json'', ''{}'')], dirs = [''/cfg'']\<rparr>
   \<and> notices (onClick_updateJson (reference_node None) (example_tab ''   '')
                \<lparr>files = [(''/cfg/c.json'', ''{}'')], dirs = [''/cfg'']\<rparr>) = [PathNotSet]"
proof -
  have blank: "\<forall>c \<in> set (claudeConfigPath (settings (example_tab ''   ''))). is_white_space c"
    by code_simp
  then have hyp: "(\<forall>c \<in> set (claudeConfigPath (settings (example_tab ''   ''))). is_white_space c)
      \<or> McpJsonConfig (example_tab ''   '') = None
      \<or> McpJsonConfig (example_tab ''   '') = (Some [] :: (string \<times> int json) list option)"
    by simp
  have config: "McpJsonConfig (example_tab ''   '') \<noteq> None" by (simp add: example_tab_def)
  have shown: "notices (onClick_updateJson (reference_node None) (example_tab ''   '')
                 \<lparr>files = [(''/cfg/c.json'', ''{}'')], dirs = [''/cfg'']\<rparr>)
               \<noteq> [NoConfigurationData]"
    by code_simp
  from update_without_path_or_fragment_touches_nothing
         [OF hyp, of "reference_node None"
            "\<lparr>files = [(''/cfg/c.json'', ''{}'')], dirs = [''/cfg'']\<rparr>"]
  show ?thesis using blank shown by (simp add: trim_empty_iff)
qed

theorem synthesized_entry_fields_witness:
  "\<exists>config env.
     McpJsonConfig (updateMcpJsonConfigDisplay (reference_node None) example_app
                      \<lparr>url = None, apiKey = None\<rparr> (example_tab ''/cfg/c.json'')) = Some config
   \<and> get_path (JObj config) [ENTRY_KEY, ''command''] = Some (JStr ''uv'')
   \<and> get_path (JObj config) [ENTRY_KEY, ''env''] = Some (JObj env)
   \<and> get_property env ''OBSIDIAN_HOST'' = Some JNull
   \<and> get_property env ''OBSIDIAN_API_KEY'' = Some JNull
   \<and> get_property env ''OBSIDIAN_HISTORY_FOLDER'' = Some JNull
   \<and> get_property env ''OBSIDIAN_MAX_HISTORY_FILES'' = Some (JStr ''100'')"
proof -
  let ?t = "example_tab ''/cfg/c.json''"
  have limit: "String_number (maxHistoryFiles (settings ?t)) = ''100''" by code_simp
  have unset: "uvPath (settings ?t) = None" "historyFolder (settings ?t) = None"
    by (simp_all add: example_tab_def example_settings_def)
  from synthesized_entry_fields
         [of "reference_node None" example_app "\<lparr>url = None, apiKey = None\<rparr>" ?t]
  obtain config env where
    "McpJsonConfig (updateMcpJsonConfigDisplay (reference_node None) example_app
                      \<lparr>url = None, apiKey = None\<rparr> ?t) = Some config"
    "get_path (JObj config) [ENTRY_KEY, ''command''] = Some (JStr ''uv'')"
    "get_path (JObj config) [ENTRY_KEY, ''env''] = Some (JObj env)"
    "get_property env ''OBSIDIAN_HOST'' = Some JNull"
    "get_property env ''OBSIDIAN_API_KEY'' = Some JNull"
    "get_property env ''OBSIDIAN_HISTORY_FOLDER'' = Some JNull"
    "get_property env ''OBSIDIAN_MAX_HISTORY_FILES'' = Some (JStr ''100'')"
    unfolding limit unset by auto
  then show ?thesis by blast
qed

lemma invalid_max_history_input_rejected_example:
  "parseInt ''-1'' = Some (- 1) \<and> parseInt ''abc'' = None
   \<and> settings (onChange_maxHistoryFiles (reference_node None) example_app ''-1''
                 (example_tab ''/cfg/c.json'')) = settings (example_tab ''/cfg/c.json'')
   \<and> McpJsonConfig (onChange_maxHistoryFiles (reference_node None) example_app ''-1''
                      (example_tab ''/cfg/c.json'')) = McpJsonConfig (example_tab ''/cfg/c.json'')
   \<and> maxHistoryText (onChange_maxHistoryFiles (reference_node None) example_app ''-1''
                       (example_tab ''/cfg/c.json'')) = ''100''
   \<and> settings (onChange_maxHistoryFiles (reference_node None) example_app ''abc''
                 (example_tab ''/cfg/c.json'')) = settings (example_tab ''/cfg/c.json'')
   \<and> McpJsonConfig (onChange_maxHistoryFiles (reference_node None) example_app ''abc''
                      (example_tab ''/cfg/c.json'')) = McpJsonConfig (example_tab ''/cfg/c.json'')
   \<and> maxHistoryText (onChange_maxHistoryFiles (reference_node None) example_app ''abc''
                       (example_tab ''/cfg/c.json'')) = ''100''"
proof -
  have minus: "parseInt ''-1'' = Some (- 1)" by code_simp
  have letters: "parseInt ''abc'' = None" by code_simp
  have limit: "String_number (maxHistoryFiles (settings (example_tab ''/cfg/c.json''))) = ''100''"
    by code_simp
  from minus have h1: "parseInt ''-1'' = None \<or> (\<exists>n. parseInt ''-1'' = Some n \<and> n < 0)"
    by simp
  from letters have h2: "parseInt ''abc'' = None \<or> (\<exists>n. parseInt ''abc'' = Some n \<and> n < 0)"
    by simp
  from invalid_max_history_input_rejected
         [OF h1, of "reference_node None" example_app "example_tab ''/cfg/c.json''"]
       invalid_max_history_input_rejected
         [OF h2, of "reference_node None" example_app "example_tab ''/cfg/c.json''"]
  show ?thesis using minus letters by (simp add: limit)
qed

text \<open>
  The same tab and the same credentials on two hosts whose vaults lie at different
  paths: the entries differ.
\<close>

theorem synthesis_depends_on_host_paths:
  "McpJsonConfig (updateMcpJsonConfigDisplay (reference_node None) example_app
                    (getLocalRestApiCredentials example_app) (example_tab ''/cfg/c.json''))
     \<noteq> McpJsonConfig (updateMcpJsonConfigDisplay (reference_node None)
                         (example_app\<lparr>basePath := ''/vault2''\<rparr>)
                         (getLocalRestApiCredentials example_app) (example_tab ''/cfg/c.json''))
   \<and> configTextArea (updateMcpJsonConfigDisplay (reference_node None) example_app
                       (getLocalRestApiCredentials example_app) (example_tab ''/cfg/c.json''))
     \<noteq> configTextArea (updateMcpJsonConfigDisplay (reference_node None)
                          (example_app\<lparr>basePath := ''/vault2''\<rparr>)
                          (getLocalRestApiCredentials example_app) (example_tab ''/cfg/c.json''))"
  by code_simp

theorem synthesis_deterministic_witness:
  "claudeConfigPath (settings (example_tab ''/cfg/c.json''))
     \<noteq> claudeConfigPath (settings ((example_tab ''/other.json'')
                                        \<lparr>McpJsonConfig := None, configTextArea := ''stale''\<rparr>))
   \<and> local_rest_api example_app \<noteq> local_rest_api (example_app\<lparr>local_rest_api := None\<rparr>)
   \<and> McpJsonConfig (updateMcpJsonConfigDisplay (reference_node None) example_app
                      (getLocalRestApiCredentials example_app) (example_tab ''/cfg/c.json''))
     = McpJsonConfig (updateMcpJsonConfigDisplay (reference_node (Some ''/home/u''))
                        (example_app\<lparr>local_rest_api := None\<rparr>)
                        (getLocalRestApiCredentials example_app)
                        ((example_tab ''/other.json'')
                           \<lparr>McpJsonConfig := None, configTextArea := ''stale''\<rparr>))
   \<and> configTextArea (updateMcpJsonConfigDisplay (reference_node None) example_app
                       (getLocalRestApiCredentials example_app) (example_tab ''/cfg/c.json''))
     = configTextArea (updateMcpJsonConfigDisplay (reference_node (Some ''/home/u''))
                         (example_app\<lparr>local_rest_api := None\<rparr>)
                         (getLocalRestApiCredentials example_app)
                         ((example_tab ''/other.json'')
                            \<lparr>McpJsonConfig := None, configTextArea := ''stale''\<rparr>))"
proof -
  let ?t1 = "example_tab ''/cfg/c.json''"
  let ?t2 = "(example_tab ''/other.json'')\<lparr>McpJsonConfig := None, configTextArea := ''stale''\<rparr>"
  let ?a2 = "example_app\<lparr>local_rest_api := None\<rparr>"
  let ?rt1 = "reference_node None"
  let ?rt2 = "reference_node (Some ''/home/u'')"
  have join: "path_join ?rt1 = path_join ?rt2"
    and serial: "JSON_stringify ?rt1 = JSON_stringify ?rt2"
    by (simp_all add: reference_node_def)
  have base: "basePath example_app = basePath ?a2"
    and plugin: "manifest_dir example_app = manifest_dir ?a2"
    by simp_all
  have uv: "uvPath (settings ?t1) = uvPath (settings ?t2)"
    and folder: "historyFolder (settings ?t1) = historyFolder (settings ?t2)"
    and limit: "maxHistoryFiles (settings ?t1) = maxHistoryFiles (settings ?t2)"
    by (simp_all add: example_tab_def example_settings_def)
  have paths: "claudeConfigPath (settings ?t1) \<noteq> claudeConfigPath (settings ?t2)"
    by (simp add: example_tab_def example_settings_def)
  have registry: "local_rest_api example_app \<noteq> local_rest_api ?a2"
    by (simp add: example_app_def)
  from synthesis_deterministic [OF join serial base plugin uv folder limit refl]
  have "McpJsonConfig (updateMcpJsonConfigDisplay ?rt1 example_app
                         (getLocalRestApiCredentials example_app) ?t1)
          = McpJsonConfig (updateMcpJsonConfigDisplay ?rt2 ?a2
                             (getLocalRestApiCredentials example_app) ?t2)
      \<and> configTextArea (updateMcpJsonConfigDisplay ?rt1 example_app
                          (getLocalRestApiCredentials example_app) ?t1)
          = configTextArea (updateMcpJsonConfigDisplay ?rt2 ?a2
                              (getLocalRestApiCredentials example_app) ?t2)" .
  with paths registry show ?thesis by blast
qed

end
